theory Spec2Isabelle
  imports Main "HOL-Library.Sublist"
begin

section \<open>The smart-HTTP bridge of gitrpc (internal/gitrpc/http\_service.go)\<close>

text \<open>
  Go strings are byte sequences: a \<open>string\<close> here is the list of its bytes and
  \<open>length\<close> is Go's \<open>len\<close>. A \<open>[]byte\<close> that may be \<open>nil\<close> is a
  \<open>string option\<close>.
\<close>

subsection \<open>strconv.FormatInt in base 16 and packetWrite\<close>

definition hexDigits :: string where
  "hexDigits = ''0123456789abcdef''"

text \<open>
  \<open>strconv.FormatInt(n, 16)\<close> for a non-negative \<open>n\<close>: the lowercase hexadecimal
  digits of \<open>n\<close>, most significant first, without leading zeros. The argument of the
  source is \<open>int64(len(str)+4)\<close>; a Go string is shorter than \<open>2^63 - 4\<close> bytes, so
  the sum never wraps and a natural number models it.
\<close>

function FormatInt16 :: "nat \<Rightarrow> string" where
  "FormatInt16 n =
     (if n < 16 then [hexDigits ! n]
      else FormatInt16 (n div 16) @ [hexDigits ! (n mod 16)])"
  by pat_completeness auto
termination
  by (relation "measure id") auto

declare FormatInt16.simps [simp del]

definition packetWrite :: "string \<Rightarrow> string" where
  "packetWrite str =
     (let s = FormatInt16 (length str + 4);
          s = (if length s mod 4 \<noteq> 0
               then replicate (4 - length s mod 4) CHR ''0'' @ s else s)
      in s @ str)"

text \<open>The header alone: the first part of what \<open>packetWrite\<close> returns.\<close>

definition packetHeader :: "string \<Rightarrow> string" where
  "packetHeader str =
     (let s = FormatInt16 (length str + 4)
      in if length s mod 4 \<noteq> 0 then replicate (4 - length s mod 4) CHR ''0'' @ s else s)"

text \<open>Reading a hexadecimal numeral back, to state what a header represents.\<close>

definition hexDigitVal :: "char \<Rightarrow> nat" where
  "hexDigitVal c = length (takeWhile (\<lambda>d. d \<noteq> c) hexDigits)"

definition hexVal :: "string \<Rightarrow> nat" where
  "hexVal h = foldl (\<lambda>a c. 16 * a + hexDigitVal c) 0 h"

definition isLowerHex :: "string \<Rightarrow> bool" where
  "isLowerHex h = list_all (\<lambda>c. c \<in> set hexDigits) h"

subsection \<open>The allow-list pattern safeGitProtocolHeader\<close>

text \<open>
  The fragment of Go's regular expressions the pattern uses (alternation and the two
  constants only arise while matching). A character class is a list of inclusive byte
  ranges. The pattern is anchored at both ends (\<open>^ ... $\<close>, no multi-line flag), so
  \<open>MatchString\<close> holds iff the whole string has the form of the pattern; it is decided
  by taking the derivative of the pattern by each byte in turn.
\<close>

datatype regexp =
    NoMatch
  | EmptyString
  | Lit char
  | CharClass "(char \<times> char) list"
  | Cat regexp regexp
  | Alt regexp regexp
  | Star regexp
  | Plus regexp

definition inRange :: "char \<Rightarrow> char \<times> char \<Rightarrow> bool" where
  "inRange c r = ((of_char (fst r) :: nat) \<le> of_char c \<and> (of_char c :: nat) \<le> of_char (snd r))"

definition inClass :: "(char \<times> char) list \<Rightarrow> char \<Rightarrow> bool" where
  "inClass rs c = list_ex (inRange c) rs"

fun nullable :: "regexp \<Rightarrow> bool" where
  "nullable NoMatch = False"
| "nullable EmptyString = True"
| "nullable (Lit c) = False"
| "nullable (CharClass rs) = False"
| "nullable (Cat r s) = (nullable r \<and> nullable s)"
| "nullable (Alt r s) = (nullable r \<or> nullable s)"
| "nullable (Star r) = True"
| "nullable (Plus r) = nullable r"

fun deriv :: "char \<Rightarrow> regexp \<Rightarrow> regexp" where
  "deriv c NoMatch = NoMatch"
| "deriv c EmptyString = NoMatch"
| "deriv c (Lit d) = (if c = d then EmptyString else NoMatch)"
| "deriv c (CharClass rs) = (if inClass rs c then EmptyString else NoMatch)"
| "deriv c (Cat r s) =
     (if nullable r then Alt (Cat (deriv c r) s) (deriv c s) else Cat (deriv c r) s)"
| "deriv c (Alt r s) = Alt (deriv c r) (deriv c s)"
| "deriv c (Star r) = Cat (deriv c r) (Star r)"
| "deriv c (Plus r) = Cat (deriv c r) (Star r)"

definition MatchString :: "regexp \<Rightarrow> string \<Rightarrow> bool" where
  "MatchString re s = nullable (foldl (\<lambda>r c. deriv c r) re s)"

text \<open>
  What a pattern matches, stated directly: the set of strings of each form. \<open>repeats A\<close>
  are the concatenations of any number of strings of \<open>A\<close>. The matcher decides
  membership in this set (\<open>MatchString_matched\<close> below).
\<close>

inductive_set repeats :: "string set \<Rightarrow> string set" for A :: "string set" where
  repeats_none: "[] \<in> repeats A"
| repeats_more: "u \<in> A \<Longrightarrow> v \<in> repeats A \<Longrightarrow> u @ v \<in> repeats A"

fun matched :: "regexp \<Rightarrow> string set" where
  "matched NoMatch = {}"
| "matched EmptyString = {[]}"
| "matched (Lit c) = {[c]}"
| "matched (CharClass rs) = {[c] |c. inClass rs c}"
| "matched (Cat r s) = {u @ v |u v. u \<in> matched r \<and> v \<in> matched s}"
| "matched (Alt r s) = matched r \<union> matched s"
| "matched (Star r) = repeats (matched r)"
| "matched (Plus r) = {u @ v |u v. u \<in> matched r \<and> v \<in> repeats (matched r)}"

text \<open>\<open>[0-9a-zA-Z]+\<close>\<close>

definition alnumWord :: regexp where
  "alnumWord =
     Plus (CharClass [(CHR ''0'', CHR ''9''), (CHR ''a'', CHR ''z''), (CHR ''A'', CHR ''Z'')])"

text \<open>\<open>^[0-9a-zA-Z]+=[0-9a-zA-Z]+(:[0-9a-zA-Z]+=[0-9a-zA-Z]+)*$\<close>\<close>

definition safeGitProtocolHeader :: regexp where
  "safeGitProtocolHeader =
     Cat alnumWord (Cat (Lit CHR ''='') (Cat alnumWord
       (Star (Cat (Lit CHR '':'') (Cat alnumWord (Cat (Lit CHR ''='') alnumWord))))))"

subsection \<open>path/filepath (Unix): Join and Clean\<close>

text \<open>
  \<open>filepath.Join\<close> drops leading empty elements, joins the rest with the separator and
  cleans the result; it returns the empty string when every element is empty.
  \<open>filepath.Clean\<close> is purely lexical: it drops empty and \<open>.\<close> elements, lets a
  \<open>..\<close> element remove the element before it (at the root it is dropped, in a relative
  path with nothing left to remove it is kept), and turns an empty result into \<open>.\<close>.
  The element stack is kept with its top first.
\<close>

fun splitSep :: "string \<Rightarrow> string list" where
  "splitSep [] = [[]]"
| "splitSep (c # cs) =
     (if c = CHR ''/'' then [] # splitSep cs
      else (case splitSep cs of e # es \<Rightarrow> (c # e) # es | [] \<Rightarrow> [[c]]))"

fun strings_Join :: "string list \<Rightarrow> string \<Rightarrow> string" where
  "strings_Join [] sep = []"
| "strings_Join [e] sep = e"
| "strings_Join (e # es) sep = e @ sep @ strings_Join es sep"

definition cleanStep :: "bool \<Rightarrow> string list \<Rightarrow> string \<Rightarrow> string list" where
  "cleanStep rooted st e =
     (if e = [] \<or> e = ''.'' then st
      else if e = ''..'' then
        (case st of
           [] \<Rightarrow> (if rooted then [] else [''..''])
         | e0 # rest \<Rightarrow> (if e0 = ''..'' then ''..'' # st else rest))
      else e # st)"

definition filepath_Clean :: "string \<Rightarrow> string" where
  "filepath_Clean path =
     (if path = [] then ''.''
      else
        (let rooted = (hd path = CHR ''/'');
             out = strings_Join (rev (foldl (cleanStep rooted) [] (splitSep path))) ''/''
         in if rooted then CHR ''/'' # out
            else if out = [] then ''.'' else out))"

fun filepath_Join :: "string list \<Rightarrow> string" where
  "filepath_Join [] = []"
| "filepath_Join (e # es) =
     (if e = [] then filepath_Join es else filepath_Clean (strings_Join (e # es) ''/''))"

text \<open>
  The elements of a path, and whether it is absolute. A cleaned path lies within a cleaned
  directory when both are absolute or both relative and the elements of the directory
  are the first elements of the path.
\<close>

definition pathElems :: "string \<Rightarrow> string list" where
  "pathElems p = filter (\<lambda>e. e \<noteq> []) (splitSep p)"

definition isAbs :: "string \<Rightarrow> bool" where
  "isAbs p = (p \<noteq> [] \<and> hd p = CHR ''/'')"

definition pathWithin :: "string \<Rightarrow> string \<Rightarrow> bool" where
  "pathWithin dir p = (isAbs dir = isAbs p \<and> prefix (pathElems dir) (pathElems p))"

text \<open>An ordinary path element: not empty, not \<open>.\<close> or \<open>..\<close>, without a separator.\<close>

definition plainElem :: "string \<Rightarrow> bool" where
  "plainElem e = (e \<noteq> [] \<and> e \<noteq> ''.'' \<and> e \<noteq> ''..'' \<and> CHR ''/'' \<notin> set e)"

subsection \<open>Requests, errors and the outside world\<close>

text \<open>
  The two request messages (generated from the protocol definition). \<open>Data\<close> is a
  \<open>[]byte\<close>: \<open>None\<close> is \<open>nil\<close>, \<open>Some []\<close> is a slice that is present and empty.
\<close>

record InfoRefsRequest =
  ir_RepoUid :: string
  ir_Service :: string
  ir_GitProtocol :: string

record ServicePackRequest =
  RepoUid :: string
  Service :: string
  Data :: "string option"
  GitProtocol :: string
  PrincipalId :: string

text \<open>
  An error value is either a status built here with \<open>status.Errorf\<close> or an error that
  comes from outside (the transport, the git command), known by its \<open>Error()\<close> text.
\<close>

datatype codes = InvalidArgument | Internal

datatype error = Status codes string | Err string

record RunOpts =
  Env :: "string list"
  Dir :: string
  UseContextTimeout :: bool

text \<open>
  What \<open>Run\<close> of the git command reports: the error it returns and what the subprocess
  wrote to its standard output and standard error.
\<close>

record RunResult =
  run_err :: "string option"
  run_stdout :: string
  run_stderr :: string

text \<open>
  Package constants that the file uses and declares elsewhere: the suffix of a repository
  directory and the names of the two variables that correlate a push.
\<close>

record package_consts =
  gitRepoSuffix :: string
  EnvRepoUID :: string
  EnvPusherID :: string

text \<open>
  Everything around a call: the inherited environment \<open>os.Environ()\<close>, the behaviour
  of running git with given arguments and options, the outcome of the \<open>k\<close>-th
  \<open>stream.Send\<close> of the call (\<open>None\<close> is success), and what \<open>ctx.Err()\<close> of the
  call's context is when the command has ended: \<open>None\<close> while the caller has not
  cancelled, otherwise the text of the cancellation. The context is handed to the git
  command; the code of this file never reads its state.
\<close>

record world =
  os_Environ :: "string list"
  git_Run :: "string list \<Rightarrow> RunOpts \<Rightarrow> RunResult"
  stream_Send :: "nat \<Rightarrow> string \<Rightarrow> string option"
  ctx_Err :: "string option"

text \<open>
  What a call did: the error it returned (\<open>None\<close> is \<open>nil\<close>), the git commands it ran,
  the chunks its own code wrote to the outbound adapter (what a subprocess bound to the
  adapter writes belongs to its run), and the messages it logged at error level.
\<close>

record outcome =
  returned :: "error option"
  spawned :: "(string list \<times> RunOpts) list"
  Send_calls :: "string list"
  logged :: "string list"

record smartHTTPService =
  reposRoot :: string

definition getFullPathForRepo :: "package_consts \<Rightarrow> smartHTTPService \<Rightarrow> string \<Rightarrow> string" where
  "getFullPathForRepo pkg s uid =
     filepath_Join [reposRoot s, uid @ ''.'' @ gitRepoSuffix pkg]"

subsection \<open>The outbound stream adapter\<close>

text \<open>
  Modelled from the spec: \<open>NewWriter\<close>, the outbound adapter, is declared outside this
  file. On each write request it forwards the supplied bytes as one transport send call and
  propagates a transport failure to the caller. The state is the list of chunks sent so
  far; the result is that list with the new chunk and the error of the send.
\<close>

definition Writer_Write :: "world \<Rightarrow> string list \<Rightarrow> string \<Rightarrow> string list \<times> string option" where
  "Writer_Write w sent p = (sent @ [p], stream_Send w (length sent) p)"

text \<open>
  \<open>io.Copy\<close> from a \<open>bytes.Buffer\<close> uses the buffer's \<open>WriteTo\<close>: one write of
  the whole content, and no write at all when the buffer is empty.
\<close>

definition io_Copy :: "world \<Rightarrow> string list \<Rightarrow> string \<Rightarrow> string list \<times> string option" where
  "io_Copy w sent buf = (if buf = [] then (sent, None) else Writer_Write w sent buf)"

subsection \<open>InfoRefs\<close>

text \<open>The variable \<open>environ\<close> of \<open>InfoRefs\<close> when the command is run.\<close>

definition InfoRefs_environ :: "world \<Rightarrow> InfoRefsRequest \<Rightarrow> string list" where
  "InfoRefs_environ w r =
     (let environ = [];
          environ = os_Environ w @ environ;
          environ = (if ir_GitProtocol r \<noteq> [] then environ @ [''GIT_PROTOCOL='' @ ir_GitProtocol r]
                     else environ)
      in environ)"

text \<open>The arguments of the git command of \<open>InfoRefs\<close> and the options of its run.\<close>

definition InfoRefs_args :: "InfoRefsRequest \<Rightarrow> string list" where
  "InfoRefs_args r = [ir_Service r, ''--stateless-rpc'', ''--advertise-refs'', ''.'']"

definition InfoRefs_opts :: "package_consts \<Rightarrow> smartHTTPService \<Rightarrow> world \<Rightarrow> InfoRefsRequest \<Rightarrow> RunOpts" where
  "InfoRefs_opts pkg s w r =
     \<lparr>Env = InfoRefs_environ w r, Dir = getFullPathForRepo pkg s (ir_RepoUid r),
      UseContextTimeout = False\<rparr>"

definition InfoRefs :: "package_consts \<Rightarrow> smartHTTPService \<Rightarrow> world \<Rightarrow> InfoRefsRequest \<Rightarrow> outcome" where
  "InfoRefs pkg s w r =
     (let cmd = git_Run w (InfoRefs_args r) (InfoRefs_opts pkg s w r);
          ran = [(InfoRefs_args r, InfoRefs_opts pkg s w r)]
      in case run_err cmd of
           Some err \<Rightarrow>
             \<lparr>returned = Some (Status Internal (''InfoRefsUploadPack: cmd: '' @ err)),
              spawned = ran, Send_calls = [], logged = []\<rparr>
         | None \<Rightarrow>
             (case Writer_Write w [] (packetWrite (''# service=git-'' @ ir_Service r @ ''\<newline>'')) of
                (sent, Some err) \<Rightarrow>
                  \<lparr>returned = Some (Status Internal (''InfoRefsUploadPack: pktLine: '' @ err)),
                   spawned = ran, Send_calls = sent, logged = []\<rparr>
              | (sent, None) \<Rightarrow>
                  (case Writer_Write w sent ''0000'' of
                     (sent, Some err) \<Rightarrow>
                       \<lparr>returned = Some (Status Internal (''InfoRefsUploadPack: flush: '' @ err)),
                        spawned = ran, Send_calls = sent, logged = []\<rparr>
                   | (sent, None) \<Rightarrow>
                       (case io_Copy w sent (run_stdout cmd) of
                          (sent, Some err) \<Rightarrow>
                            \<lparr>returned = Some (Status Internal (''InfoRefsUploadPack: '' @ err)),
                             spawned = ran, Send_calls = sent, logged = []\<rparr>
                        | (sent, None) \<Rightarrow>
                            \<lparr>returned = None, spawned = ran, Send_calls = sent, logged = []\<rparr>))))"

subsection \<open>ServicePack and serviceRPC\<close>

definition receivePack :: string where
  "receivePack = ''receive-pack''"

text \<open>The variable \<open>environ\<close> of \<open>serviceRPC\<close> when the command is run.\<close>

definition serviceRPC_environ :: "package_consts \<Rightarrow> ServicePackRequest \<Rightarrow> string list" where
  "serviceRPC_environ pkg req =
     (let protocol = GitProtocol req;
          service = Service req;
          principalID = PrincipalId req;
          repoUID = RepoUid req;
          environ = [];
          environ = (if service = receivePack \<and> principalID \<noteq> []
                     then [EnvRepoUID pkg @ ''='' @ repoUID, EnvPusherID pkg @ ''='' @ principalID]
                     else environ);
          environ = environ @ [''SSH_ORIGINAL_COMMAND='' @ service];
          environ = (if protocol \<noteq> [] \<and> MatchString safeGitProtocolHeader protocol
                     then environ @ [''GIT_PROTOCOL='' @ protocol] else environ)
      in environ)"

text \<open>The arguments of the git command of \<open>serviceRPC\<close> and the options of its run.\<close>

definition serviceRPC_args :: "ServicePackRequest \<Rightarrow> string \<Rightarrow> string list" where
  "serviceRPC_args req dir = [Service req, ''--stateless-rpc'', dir]"

definition serviceRPC_opts :: "package_consts \<Rightarrow> world \<Rightarrow> ServicePackRequest \<Rightarrow> string \<Rightarrow> RunOpts" where
  "serviceRPC_opts pkg w req dir =
     \<lparr>Env = os_Environ w @ serviceRPC_environ pkg req, Dir = dir, UseContextTimeout = True\<rparr>"

text \<open>
  The subprocess reads the rest of the request stream and writes the response stream
  itself, through the two adapters; of that exchange the model keeps the error \<open>Run\<close>
  returns and the standard error it captured.
\<close>

definition serviceRPC :: "package_consts \<Rightarrow> world \<Rightarrow> ServicePackRequest \<Rightarrow> string \<Rightarrow> outcome" where
  "serviceRPC pkg w req dir =
     (let service = Service req;
          cmd = git_Run w (serviceRPC_args req dir) (serviceRPC_opts pkg w req dir);
          err = run_err cmd;
          logs = (case err of
                    None \<Rightarrow> []
                  | Some e \<Rightarrow>
                      (if e \<noteq> ''signal: killed''
                       then [''Fail to serve RPC('' @ service @ '') in '' @ dir @ '': '' @ e
                               @ '' - '' @ run_stderr cmd]
                       else []))
      in \<lparr>returned = map_option Err err,
          spawned = [(serviceRPC_args req dir, serviceRPC_opts pkg w req dir)],
          Send_calls = [], logged = logs\<rparr>)"

text \<open>The argument is the result of the first \<open>stream.Recv()\<close>.\<close>

definition ServicePack :: "package_consts \<Rightarrow> smartHTTPService \<Rightarrow> world \<Rightarrow> string + ServicePackRequest \<Rightarrow> outcome" where
  "ServicePack pkg s w first =
     (case first of
        Inl err \<Rightarrow> \<lparr>returned = Some (Err err), spawned = [], Send_calls = [], logged = []\<rparr>
      | Inr req \<Rightarrow>
          (if Data req \<noteq> None then
             \<lparr>returned = Some (Status InvalidArgument ''PostUploadPack(): non-empty Data''),
              spawned = [], Send_calls = [], logged = []\<rparr>
           else if RepoUid req = [] then
             \<lparr>returned = Some (Status InvalidArgument ''PostUploadPack(): repository UID is missing''),
              spawned = [], Send_calls = [], logged = []\<rparr>
           else serviceRPC pkg w req (getFullPathForRepo pkg s (RepoUid req))))"

subsection \<open>Reading an environment\<close>

text \<open>
  An environment is a list of \<open>KEY=VALUE\<close> strings. The key of an entry is what stands
  before its first \<open>=\<close>; the values of a key are what its entries carry after it.
\<close>

definition envKey :: "string \<Rightarrow> string" where
  "envKey e = takeWhile (\<lambda>c. c \<noteq> CHR ''='') e"

definition envHas :: "string \<Rightarrow> string list \<Rightarrow> bool" where
  "envHas k env = (k \<in> set (map envKey env))"

definition envValues :: "string \<Rightarrow> string list \<Rightarrow> string list" where
  "envValues k env = map (drop (length k + 1)) (filter (\<lambda>e. envKey e = k) env)"

text \<open>
  What the names of the two correlation variables must satisfy to be read back: no
  \<open>=\<close> inside, different from each other and from the two names this file writes out.
\<close>

definition envNamesOk :: "package_consts \<Rightarrow> bool" where
  "envNamesOk pkg =
     (CHR ''='' \<notin> set (EnvRepoUID pkg) \<and> CHR ''='' \<notin> set (EnvPusherID pkg) \<and>
      EnvRepoUID pkg \<noteq> EnvPusherID pkg \<and>
      EnvRepoUID pkg \<noteq> ''SSH_ORIGINAL_COMMAND'' \<and> EnvRepoUID pkg \<noteq> ''GIT_PROTOCOL'' \<and>
      EnvPusherID pkg \<noteq> ''SSH_ORIGINAL_COMMAND'' \<and> EnvPusherID pkg \<noteq> ''GIT_PROTOCOL'')"

subsection \<open>A concrete setting for examples\<close>

definition example_pkg :: package_consts where
  "example_pkg =
     \<lparr>gitRepoSuffix = ''git'', EnvRepoUID = ''GITNESS_REPO_UID'', EnvPusherID = ''GITNESS_PUSHER_ID''\<rparr>"

definition example_service :: smartHTTPService where
  "example_service = \<lparr>reposRoot = ''/data/repos''\<rparr>"

text \<open>A world in which git succeeds and every send succeeds.\<close>

definition example_world :: world where
  "example_world =
     \<lparr>os_Environ = [''PATH=/usr/bin''],
      git_Run = (\<lambda>args opts. \<lparr>run_err = None, run_stdout = ''0000'', run_stderr = []\<rparr>),
      stream_Send = (\<lambda>k p. None),
      ctx_Err = None\<rparr>"

text \<open>
  A world in which git fails with the given error and the caller has not cancelled: with
  the error \<open>signal: killed\<close>, a subprocess that something else killed.
\<close>

definition failing_world :: "string \<Rightarrow> world" where
  "failing_world e =
     \<lparr>os_Environ = [''PATH=/usr/bin''],
      git_Run = (\<lambda>args opts. \<lparr>run_err = Some e, run_stdout = ''00'', run_stderr = ''fatal''\<rparr>),
      stream_Send = (\<lambda>k p. None),
      ctx_Err = None\<rparr>"

text \<open>A world in which the caller cancelled and the subprocess was killed for it.\<close>

definition cancelled_world :: world where
  "cancelled_world =
     \<lparr>os_Environ = [''PATH=/usr/bin''],
      git_Run = (\<lambda>args opts. \<lparr>run_err = Some ''signal: killed'', run_stdout = ''00'', run_stderr = []\<rparr>),
      stream_Send = (\<lambda>k p. None),
      ctx_Err = Some ''context canceled''\<rparr>"

text \<open>A world whose inherited environment already has the pusher variable.\<close>

definition inherited_world :: world where
  "inherited_world =
     \<lparr>os_Environ = [''PATH=/usr/bin'', ''GITNESS_PUSHER_ID=7''],
      git_Run = (\<lambda>args opts. \<lparr>run_err = None, run_stdout = ''0000'', run_stderr = []\<rparr>),
      stream_Send = (\<lambda>k p. None),
      ctx_Err = None\<rparr>"

definition example_push :: ServicePackRequest where
  "example_push =
     \<lparr>RepoUid = ''r1'', Service = ''receive-pack'', Data = None, GitProtocol = ''version=2'',
      PrincipalId = ''p1''\<rparr>"

definition example_advertise :: InfoRefsRequest where
  "example_advertise =
     \<lparr>ir_RepoUid = ''r1'', ir_Service = ''upload-pack'', ir_GitProtocol = []\<rparr>"

definition example_fetch :: ServicePackRequest where
  "example_fetch =
     \<lparr>RepoUid = ''r1'', Service = ''upload-pack'', Data = None, GitProtocol = ''version 2'',
      PrincipalId = ''p1''\<rparr>"

section \<open>Auxiliary facts\<close>

subsection \<open>Hexadecimal numerals\<close>

lemma hexDigitVal_nth: "d < 16 \<Longrightarrow> hexDigitVal (hexDigits ! d) = d"
proof -
  assume "d < 16"
  then have "d = 0 \<or> d = 1 \<or> d = 2 \<or> d = 3 \<or> d = 4 \<or> d = 5 \<or> d = 6 \<or> d = 7 \<or> d = 8
      \<or> d = 9 \<or> d = 10 \<or> d = 11 \<or> d = 12 \<or> d = 13 \<or> d = 14 \<or> d = 15"
    by arith
  then show ?thesis
    by (elim disjE) (simp_all add: hexDigitVal_def hexDigits_def)
qed

lemma hexDigits_nth_mem: "d < 16 \<Longrightarrow> hexDigits ! d \<in> set hexDigits"
proof -
  assume "d < 16"
  moreover have "length hexDigits = 16" by (simp add: hexDigits_def)
  ultimately show ?thesis by simp
qed

lemma hexVal_snoc: "hexVal (h @ [c]) = 16 * hexVal h + hexDigitVal c"
  by (simp add: hexVal_def)

lemma hexVal_FormatInt16: "hexVal (FormatInt16 n) = n"
proof (induction n rule: FormatInt16.induct)
  case (1 n)
  show ?case
  proof (cases "n < 16")
    case True
    then show ?thesis
      by (subst FormatInt16.simps) (simp add: hexVal_def hexDigitVal_nth)
  next
    case False
    with 1 have "hexVal (FormatInt16 (n div 16)) = n div 16" by simp
    with False show ?thesis
      by (subst FormatInt16.simps) (simp add: hexVal_snoc hexDigitVal_nth)
  qed
qed

lemma isLowerHex_FormatInt16: "isLowerHex (FormatInt16 n)"
proof (induction n rule: FormatInt16.induct)
  case (1 n)
  show ?case
  proof (cases "n < 16")
    case True
    then show ?thesis
      by (subst FormatInt16.simps) (simp add: isLowerHex_def hexDigits_nth_mem)
  next
    case False
    with 1 have "isLowerHex (FormatInt16 (n div 16))" by simp
    with False show ?thesis
      by (subst FormatInt16.simps) (simp add: isLowerHex_def hexDigits_nth_mem)
  qed
qed

lemma FormatInt16_nonempty: "0 < length (FormatInt16 n)"
  by (subst FormatInt16.simps) simp

lemma FormatInt16_length_le: "n < 16 ^ k \<Longrightarrow> 0 < k \<Longrightarrow> length (FormatInt16 n) \<le> k"
proof (induction n arbitrary: k rule: FormatInt16.induct)
  case (1 n)
  show ?case
  proof (cases "n < 16")
    case True
    with 1(3) show ?thesis
      by (subst FormatInt16.simps) simp
  next
    case False
    from 1(3) obtain j where k: "k = Suc j" by (cases k) auto
    from False 1(2) k have j: "0 < j" by (cases j) auto
    from 1(2) k have "n div 16 < 16 ^ j"
      by (simp add: less_mult_imp_div_less mult.commute)
    with 1(1) False j have "length (FormatInt16 (n div 16)) \<le> j" by simp
    with False k show ?thesis
      by (subst FormatInt16.simps) simp
  qed
qed

lemma hexVal_zeros: "hexVal (replicate k CHR ''0'' @ h) = hexVal h"
proof -
  have "foldl (\<lambda>a c. 16 * a + hexDigitVal c) 0 (replicate k CHR ''0'') = 0"
    by (induction k) (simp_all add: hexDigitVal_def hexDigits_def)
  then show ?thesis by (simp add: hexVal_def)
qed

lemma isLowerHex_zeros: "isLowerHex h \<Longrightarrow> isLowerHex (replicate k CHR ''0'' @ h)"
proof -
  assume h: "isLowerHex h"
  have "CHR ''0'' \<in> set hexDigits" by (simp add: hexDigits_def)
  then have "list_all (\<lambda>c. c \<in> set hexDigits) (replicate k CHR ''0'')"
    by (induction k) simp_all
  with h show ?thesis by (simp add: isLowerHex_def)
qed

subsection \<open>The header packetWrite puts before the line\<close>

lemma packetWrite_split: "packetWrite str = packetHeader str @ str"
  by (simp add: packetWrite_def packetHeader_def Let_def)

lemma pad_mod4: "0 < (n::nat) mod 4 \<Longrightarrow> (4 - n mod 4 + n) mod 4 = 0"
  by presburger

lemma pad_len4:
  "0 < (n::nat) \<Longrightarrow> n \<le> 4 \<Longrightarrow> (if n mod 4 \<noteq> 0 then 4 - n mod 4 + n else n) = 4"
  by presburger

lemma packetHeader_length:
  "length (packetHeader str) =
    (let n = length (FormatInt16 (length str + 4))
     in if n mod 4 \<noteq> 0 then 4 - n mod 4 + n else n)"
  by (simp add: packetHeader_def Let_def)

text \<open>
  For every line the header is a lowercase hexadecimal numeral of value \<open>len + 4\<close> whose
  width is a positive multiple of four.
\<close>

lemma packetHeader_props:
  "hexVal (packetHeader str) = length str + 4 \<and> isLowerHex (packetHeader str) \<and>
   length (packetHeader str) mod 4 = 0 \<and> 0 < length (packetHeader str)"
proof -
  have "hexVal (packetHeader str) = length str + 4"
    by (simp add: packetHeader_def Let_def hexVal_zeros hexVal_FormatInt16)
  moreover have "isLowerHex (packetHeader str)"
    by (simp add: packetHeader_def Let_def isLowerHex_zeros isLowerHex_FormatInt16)
  moreover have "length (packetHeader str) mod 4 = 0"
    using pad_mod4 [of "length (FormatInt16 (length str + 4))"]
    by (simp add: packetHeader_length Let_def)
  moreover have "0 < length (packetHeader str)"
    using FormatInt16_nonempty [of "length str + 4"]
    by (simp add: packetHeader_def Let_def)
  ultimately show ?thesis by simp
qed

lemma packetHeader_length4: "length str + 4 < 65536 \<Longrightarrow> length (packetHeader str) = 4"
proof -
  assume "length str + 4 < 65536"
  then have "length (FormatInt16 (length str + 4)) \<le> 4"
    using FormatInt16_length_le [of "length str + 4" 4] by simp
  moreover have "0 < length (FormatInt16 (length str + 4))" by (rule FormatInt16_nonempty)
  ultimately show ?thesis
    using pad_len4 [of "length (FormatInt16 (length str + 4))"]
    by (simp add: packetHeader_length Let_def)
qed

lemma FormatInt16_65536: "FormatInt16 65536 = ''10000''"
  by (simp add: FormatInt16.simps hexDigits_def)

lemma pad_10000:
  "(if length ''10000'' mod 4 \<noteq> 0
    then replicate (4 - length ''10000'' mod 4) CHR ''0'' @ ''10000'' else ''10000'') = ''00010000''"
proof -
  have a1: "length ''10000'' = 5" by simp
  have a2: "(5::nat) mod 4 = 1" by simp
  have a3: "replicate (4 - 1) CHR ''0'' = ''000''" by (simp add: numeral_3_eq_3)
  show ?thesis unfolding a1 a2 a3 by simp
qed

lemma packetWrite_65532: "length s = 65532 \<Longrightarrow> packetWrite s = ''00010000'' @ s"
proof -
  assume L: "length s = 65532"
  have "length s + 4 = 65536" unfolding L by simp
  then have F: "FormatInt16 (length s + 4) = ''10000''" by (simp only: FormatInt16_65536)
  show ?thesis unfolding packetWrite_def Let_def F pad_10000 by (rule refl)
qed

lemma hexVal_0001: "hexVal ''0001'' = 1"
  by (simp add: hexVal_def hexDigitVal_def hexDigits_def)

lemma packetWrite_65532_header: "length s = 65532 \<Longrightarrow> take 4 (packetWrite s) = ''0001''"
  by (simp only: packetWrite_65532) simp

subsection \<open>The matcher decides the pattern\<close>

lemma nullable_matched: "nullable r = ([] \<in> matched r)"
  by (induction r) (auto intro: repeats_none)

lemma repeats_Cons_D:
  "x \<in> repeats A \<Longrightarrow> x = c # w \<Longrightarrow> \<exists>u v. w = u @ v \<and> c # u \<in> A \<and> v \<in> repeats A"
proof (induction arbitrary: w rule: repeats.induct)
  case repeats_none
  then show ?case by simp
next
  case (repeats_more u v)
  show ?case
  proof (cases u)
    case Nil
    with repeats_more show ?thesis by simp
  next
    case (Cons d u')
    with repeats_more.prems have "d = c" and "w = u' @ v" by simp_all
    with Cons repeats_more.hyps show ?thesis by blast
  qed
qed

lemma repeats_Cons:
  "(c # w \<in> repeats A) = (\<exists>u v. w = u @ v \<and> c # u \<in> A \<and> v \<in> repeats A)"
proof
  assume "c # w \<in> repeats A"
  then show "\<exists>u v. w = u @ v \<and> c # u \<in> A \<and> v \<in> repeats A"
    by (rule repeats_Cons_D) simp
next
  assume "\<exists>u v. w = u @ v \<and> c # u \<in> A \<and> v \<in> repeats A"
  then obtain u v where "w = u @ v" "c # u \<in> A" "v \<in> repeats A" by blast
  then show "c # w \<in> repeats A"
    using repeats_more [of "c # u" A v] by simp
qed

lemma deriv_matched: "(w \<in> matched (deriv c r)) = (c # w \<in> matched r)"
proof (induction r arbitrary: w)
  case (Cat r s)
  then show ?case
    by (auto simp: nullable_matched Cons_eq_append_conv)
next
  case (Star r)
  then show ?case
    by (auto simp: repeats_Cons)
next
  case (Plus r)
  then show ?case
    by (auto simp: Cons_eq_append_conv repeats_Cons nullable_matched)
qed auto

lemma MatchString_matched: "MatchString r s = (s \<in> matched r)"
proof -
  have "nullable (foldl (\<lambda>r c. deriv c r) r s) = (s \<in> matched r)"
    by (induction s arbitrary: r) (simp_all add: nullable_matched deriv_matched)
  then show ?thesis by (simp add: MatchString_def)
qed

subsection \<open>Environment entries\<close>

lemma envKey_bind: "CHR ''='' \<notin> set k \<Longrightarrow> envKey (k @ CHR ''='' # v) = k"
  by (simp add: envKey_def takeWhile_append)

lemma envKey_marker: "envKey (''SSH_ORIGINAL_COMMAND='' @ v) = ''SSH_ORIGINAL_COMMAND''"
  by (simp add: envKey_def)

lemma envKey_protocol: "envKey (''GIT_PROTOCOL='' @ v) = ''GIT_PROTOCOL''"
  by (simp add: envKey_def)

lemma envHas_append: "envHas k (xs @ ys) = (envHas k xs \<or> envHas k ys)"
  by (auto simp: envHas_def)

lemma envValues_append: "envValues k (xs @ ys) = envValues k xs @ envValues k ys"
  by (simp add: envValues_def)

lemma envNamesOk_sym:
  "envNamesOk pkg \<Longrightarrow>
     ''SSH_ORIGINAL_COMMAND'' \<noteq> EnvRepoUID pkg \<and> ''GIT_PROTOCOL'' \<noteq> EnvRepoUID pkg \<and>
     ''SSH_ORIGINAL_COMMAND'' \<noteq> EnvPusherID pkg \<and> ''GIT_PROTOCOL'' \<noteq> EnvPusherID pkg \<and>
     EnvPusherID pkg \<noteq> EnvRepoUID pkg"
  by (auto simp: envNamesOk_def)

lemma serviceRPC_environ_keys:
  "envNamesOk pkg \<Longrightarrow>
     map envKey (serviceRPC_environ pkg req) =
       (if Service req = receivePack \<and> PrincipalId req \<noteq> []
        then [EnvRepoUID pkg, EnvPusherID pkg] else []) @
       [''SSH_ORIGINAL_COMMAND''] @
       (if GitProtocol req \<noteq> [] \<and> MatchString safeGitProtocolHeader (GitProtocol req)
        then [''GIT_PROTOCOL''] else [])"
  by (simp add: envNamesOk_def serviceRPC_environ_def Let_def envKey_bind
      envKey_marker [simplified] envKey_protocol [simplified])

text \<open>
  \<open>serviceRPC\<close> lets the protocol string through exactly when it is non-empty and matches
  the pattern.
\<close>

lemma serviceRPC_protocol_checked:
  "envNamesOk pkg \<Longrightarrow>
     envHas ''GIT_PROTOCOL'' (serviceRPC_environ pkg req) =
       (GitProtocol req \<noteq> [] \<and> MatchString safeGitProtocolHeader (GitProtocol req))"
  using envNamesOk_sym [of pkg]
  by (simp add: envHas_def serviceRPC_environ_keys)

text \<open>What the variables of \<open>serviceRPC\<close> bind the two correlation variables to.\<close>

lemma serviceRPC_environ_correlated:
  assumes "envNamesOk pkg" and "Service req = ''receive-pack'' \<and> PrincipalId req \<noteq> []"
  shows "envValues (EnvRepoUID pkg) (serviceRPC_environ pkg req) = [RepoUid req] \<and>
         envValues (EnvPusherID pkg) (serviceRPC_environ pkg req) = [PrincipalId req]"
proof
  show "envValues (EnvRepoUID pkg) (serviceRPC_environ pkg req) = [RepoUid req]"
    using assms envNamesOk_sym [of pkg]
    by (simp add: envNamesOk_def envValues_def serviceRPC_environ_def Let_def envKey_bind
      envKey_marker [simplified] envKey_protocol [simplified] receivePack_def)
  show "envValues (EnvPusherID pkg) (serviceRPC_environ pkg req) = [PrincipalId req]"
    using assms envNamesOk_sym [of pkg]
    by (simp add: envNamesOk_def envValues_def serviceRPC_environ_def Let_def envKey_bind
      envKey_marker [simplified] envKey_protocol [simplified] receivePack_def)
qed

lemma serviceRPC_environ_uncorrelated:
  assumes "envNamesOk pkg" and "\<not> (Service req = ''receive-pack'' \<and> PrincipalId req \<noteq> [])"
  shows "\<not> envHas (EnvRepoUID pkg) (serviceRPC_environ pkg req) \<and>
         \<not> envHas (EnvPusherID pkg) (serviceRPC_environ pkg req)"
proof
  from assms(2) have n: "\<not> (Service req = receivePack \<and> PrincipalId req \<noteq> [])"
    by (simp add: receivePack_def)
  show "\<not> envHas (EnvRepoUID pkg) (serviceRPC_environ pkg req)"
    using assms(1) n envNamesOk_sym [of pkg]
    by (simp add: envHas_def serviceRPC_environ_keys) (simp add: envNamesOk_def)
  show "\<not> envHas (EnvPusherID pkg) (serviceRPC_environ pkg req)"
    using assms(1) n envNamesOk_sym [of pkg]
    by (simp add: envHas_def serviceRPC_environ_keys) (simp add: envNamesOk_def)
qed

subsection \<open>The commands the two operations run\<close>

lemma ServicePack_valid:
  "Data req = None \<Longrightarrow> RepoUid req \<noteq> [] \<Longrightarrow>
     ServicePack pkg s w (Inr req) = serviceRPC pkg w req (getFullPathForRepo pkg s (RepoUid req))"
  by (simp add: ServicePack_def)

lemma serviceRPC_spawned:
  "spawned (serviceRPC pkg w req dir) = [(serviceRPC_args req dir, serviceRPC_opts pkg w req dir)]"
  by (simp add: serviceRPC_def Let_def)

lemma InfoRefs_spawned:
  "spawned (InfoRefs pkg s w r) = [(InfoRefs_args r, InfoRefs_opts pkg s w r)]"
  by (simp add: InfoRefs_def Let_def split: option.split prod.split)

subsection \<open>Cleaning a path that steps out of an absolute directory\<close>

lemma splitSep_nonempty: "splitSep p \<noteq> []"
  by (induction p) (auto split: list.split)

lemma splitSep_append: "splitSep (a @ CHR ''/'' # b) = splitSep a @ splitSep b"
proof (induction a)
  case Nil
  show ?case by simp
next
  case (Cons c a)
  show ?case
  proof (cases "c = CHR ''/''")
    case True
    with Cons show ?thesis by simp
  next
    case False
    obtain e es where s: "splitSep a = e # es"
      using splitSep_nonempty [of a] by (cases "splitSep a") auto
    with Cons False show ?thesis by simp
  qed
qed

lemma splitSep_plain: "CHR ''/'' \<notin> set e \<Longrightarrow> splitSep e = [e]"
  by (induction e) auto

lemma splitSep_Join:
  "cs \<noteq> [] \<Longrightarrow> \<forall>c\<in>set cs. CHR ''/'' \<notin> set c \<Longrightarrow> splitSep (strings_Join cs ''/'') = cs"
proof (induction cs "''/''" rule: strings_Join.induct)
  case 1
  then show ?case by simp
next
  case (2 e)
  then show ?case by (simp add: splitSep_plain)
next
  case (3 e v va)
  then have "splitSep (strings_Join (v # va) ''/'') = v # va" by simp
  with 3(3) show ?case by (simp add: splitSep_append splitSep_plain)
qed

lemma foldl_cleanStep_plain:
  "\<forall>c\<in>set cs. plainElem c \<Longrightarrow> foldl (cleanStep r) st cs = rev cs @ st"
  by (induction cs arbitrary: st) (auto simp: cleanStep_def plainElem_def)

lemma pathElems_abs:
  "\<forall>c\<in>set cs. plainElem c \<Longrightarrow> cs \<noteq> [] \<Longrightarrow> pathElems (CHR ''/'' # strings_Join cs ''/'') = cs"
proof -
  assume a: "\<forall>c\<in>set cs. plainElem c" and n: "cs \<noteq> []"
  then have "splitSep (strings_Join cs ''/'') = cs"
    by (simp add: splitSep_Join plainElem_def)
  moreover from a have "filter (\<lambda>e. e \<noteq> []) cs = cs"
    by (simp add: plainElem_def filter_id_conv)
  ultimately show ?thesis by (simp add: pathElems_def)
qed

text \<open>
  Under \<open>/c1/.../cn\<close>, the relative path \<open>../z\<close> is cleaned to \<open>/c1/.../c(n-1)/z\<close>.
\<close>

lemma Clean_escape:
  assumes cs: "cs \<noteq> []" "\<forall>c\<in>set cs. plainElem c" and z: "plainElem z"
  shows "filepath_Clean ((CHR ''/'' # strings_Join cs ''/'') @ CHR ''/'' # (''..'' @ CHR ''/'' # z))
           = CHR ''/'' # strings_Join (butlast cs @ [z]) ''/''"
proof -
  from cs have nos: "\<forall>c\<in>set cs. CHR ''/'' \<notin> set c" by (simp add: plainElem_def)
  have sp: "splitSep ((CHR ''/'' # strings_Join cs ''/'') @ CHR ''/'' # (''..'' @ CHR ''/'' # z))
      = [] # cs @ [''..'', z]"
    using z cs(1) nos
    by (simp only: splitSep_append) (simp add: splitSep_Join splitSep_plain plainElem_def)
  have f1: "foldl (cleanStep True) [] ([] # cs) = rev cs"
    using cs(2) by (simp add: foldl_cleanStep_plain) (simp add: cleanStep_def)
  from cs obtain l bs where l: "cs = bs @ [l]" "plainElem l"
    by (cases cs rule: rev_cases) auto
  have "foldl (cleanStep True) [] ([] # cs @ [''..'', z]) = z # rev (butlast cs)"
    using f1 l z by (simp add: cleanStep_def plainElem_def)
  then show ?thesis
    by (simp only: filepath_Clean_def sp) (simp add: Let_def)
qed

lemma getFullPathForRepo_escape:
  assumes root: "reposRoot s = CHR ''/'' # strings_Join cs ''/''"
    and cs: "cs \<noteq> []" "\<forall>c\<in>set cs. plainElem c"
    and sfx: "CHR ''/'' \<notin> set (gitRepoSuffix pkg)"
  shows "getFullPathForRepo pkg s (''../'' @ last cs @ ''x'')
           = CHR ''/'' # strings_Join (butlast cs @ [last cs @ ''x.'' @ gitRepoSuffix pkg]) ''/'' \<and>
         \<not> pathWithin (reposRoot s) (getFullPathForRepo pkg s (''../'' @ last cs @ ''x''))"
proof -
  let ?z = "last cs @ ''x.'' @ gitRepoSuffix pkg"
  from cs have l: "plainElem (last cs)" by simp
  with sfx have z: "plainElem ?z"
    by (auto simp: plainElem_def append_eq_Cons_conv Cons_eq_append_conv)
  have "getFullPathForRepo pkg s (''../'' @ last cs @ ''x'')
      = filepath_Clean ((CHR ''/'' # strings_Join cs ''/'') @ CHR ''/'' # (''..'' @ CHR ''/'' # ?z))"
    by (simp add: getFullPathForRepo_def root)
  with Clean_escape [OF cs z]
  have p: "getFullPathForRepo pkg s (''../'' @ last cs @ ''x'')
           = CHR ''/'' # strings_Join (butlast cs @ [?z]) ''/''"
    by simp
  have all: "\<forall>c\<in>set (butlast cs @ [?z]). plainElem c"
    using cs z by (auto dest: in_set_butlastD)
  have e1: "pathElems (reposRoot s) = cs"
    using cs by (simp add: root pathElems_abs)
  have e2: "pathElems (getFullPathForRepo pkg s (''../'' @ last cs @ ''x'')) = butlast cs @ [?z]"
    using all by (simp only: p) (rule pathElems_abs, simp_all)
  have "\<not> prefix cs (butlast cs @ [?z])"
  proof
    assume "prefix cs (butlast cs @ [?z])"
    then obtain zs where zs: "butlast cs @ [?z] = cs @ zs"
      unfolding prefix_def by blast
    have len: "length (butlast cs @ [?z]) = length cs" using cs(1) by simp
    from zs have "length (butlast cs @ [?z]) = length (cs @ zs)" by (simp only:)
    with len have "zs = []" by simp
    with zs have "butlast cs @ [?z] = cs" by simp
    then have "last (butlast cs @ [?z]) = last cs" by (simp only:)
    then have "last cs = ?z" by simp
    then have "length (last cs) = length ?z" by simp
    then show False by simp
  qed
  with e1 e2 have "\<not> pathWithin (reposRoot s) (getFullPathForRepo pkg s (''../'' @ last cs @ ''x''))"
    by (simp add: pathWithin_def)
  with p show ?thesis by simp
qed

section \<open>The claims\<close>

subsection \<open>C1: the protocol override and the allow-list\<close>

text \<open>
  C1 says that in both operations the subprocess environment has \<open>GIT_PROTOCOL\<close> iff the
  request's protocol string is non-empty and matches the allow-list pattern. \<open>serviceRPC\<close>
  does that (\<open>serviceRPC_protocol_checked\<close>); \<open>InfoRefs\<close> only tests that the string is
  non-empty. At the protocol string \<open>version 2\<close>, which the pattern rejects, the command of
  \<open>InfoRefs\<close> is run with \<open>GIT_PROTOCOL=version 2\<close> after the inherited environment, while
  \<open>serviceRPC\<close> drops the same string.
\<close>

theorem InfoRefs_protocol_unchecked:
  "\<not> MatchString safeGitProtocolHeader ''version 2'' \<and>
   ''version 2'' \<notin> matched safeGitProtocolHeader \<and>
   map (\<lambda>c. Env (snd c))
     (spawned (InfoRefs pkg s w \<lparr>ir_RepoUid = uid, ir_Service = svc, ir_GitProtocol = ''version 2''\<rparr>))
     = [os_Environ w @ [''GIT_PROTOCOL=version 2'']] \<and>
   serviceRPC_environ example_pkg example_fetch = [''SSH_ORIGINAL_COMMAND=upload-pack'']"
proof -
  have m: "\<not> MatchString safeGitProtocolHeader ''version 2''"
    by (simp add: MatchString_def safeGitProtocolHeader_def alnumWord_def inClass_def inRange_def)
  then have "serviceRPC_environ example_pkg example_fetch = [''SSH_ORIGINAL_COMMAND=upload-pack'']"
    by (simp add: serviceRPC_environ_def example_fetch_def receivePack_def)
  with m show ?thesis
    by (simp add: InfoRefs_spawned InfoRefs_opts_def InfoRefs_environ_def
        MatchString_matched [symmetric])
qed

subsection \<open>C2: the packet-line header\<close>

text \<open>
  C2 as stated, for every string: the first four bytes of \<open>packetWrite s\<close> are the
  hexadecimal numeral of \<open>len s + 4\<close> and the rest is \<open>s\<close>. It fails for a line of
  65532 bytes: the length to write is \<open>0x10000\<close>, five digits, which the code pads to the
  next multiple of four, \<open>00010000\<close>; the first four bytes read 1.
\<close>

theorem packetWrite_wide_header:
  "\<not> (hexVal (take 4 (packetWrite (replicate 65532 CHR ''a'')))
        = length (replicate 65532 CHR ''a'') + 4 \<and>
      drop 4 (packetWrite (replicate 65532 CHR ''a'')) = replicate 65532 CHR ''a'')"
proof
  assume a: "hexVal (take 4 (packetWrite (replicate 65532 CHR ''a'')))
        = length (replicate 65532 CHR ''a'') + 4 \<and>
      drop 4 (packetWrite (replicate 65532 CHR ''a'')) = replicate 65532 CHR ''a''"
  have L: "length (replicate 65532 CHR ''a'') = 65532" by (rule length_replicate)
  have "take 4 (packetWrite (replicate 65532 CHR ''a'')) = ''0001''"
    using L by (rule packetWrite_65532_header)
  then have "hexVal (take 4 (packetWrite (replicate 65532 CHR ''a''))) = 1"
    by (simp only: hexVal_0001)
  moreover from a have "hexVal (take 4 (packetWrite (replicate 65532 CHR ''a'')))
      = length (replicate 65532 CHR ''a'') + 4"
    by (rule conjunct1)
  ultimately show False unfolding L by simp
qed

text \<open>
  C2, amended: for every string \<open>s\<close> with \<open>len s + 4 < 65536\<close>, \<open>packetWrite s\<close>
  begins with exactly four lowercase hexadecimal characters whose value is \<open>len s + 4\<close>,
  followed by \<open>s\<close> verbatim.
\<close>

theorem packetWrite_short:
  "length s + 4 < 65536 \<Longrightarrow>
     length (take 4 (packetWrite s)) = 4 \<and> isLowerHex (take 4 (packetWrite s)) \<and>
     hexVal (take 4 (packetWrite s)) = length s + 4 \<and> drop 4 (packetWrite s) = s"
  using packetHeader_props [of s] packetHeader_length4 [of s]
  by (simp add: packetWrite_split)

theorem packetWrite_short_witness:
  "length ''# service=git-upload-pack\<newline>'' + 4 < 65536 \<and>
   take 4 (packetWrite ''# service=git-upload-pack\<newline>'') = ''001e'' \<and>
   hexVal (take 4 (packetWrite ''# service=git-upload-pack\<newline>'')) = 30 \<and>
   drop 4 (packetWrite ''# service=git-upload-pack\<newline>'') = ''# service=git-upload-pack\<newline>''"
proof -
  have h: "length ''# service=git-upload-pack\<newline>'' + 4 < 65536" by simp
  have v: "take 4 (packetWrite ''# service=git-upload-pack\<newline>'') = ''001e''" by code_simp
  have l: "length ''# service=git-upload-pack\<newline>'' + 4 = 30" by simp
  from packetWrite_short [OF h] h v l show ?thesis by simp
qed

subsection \<open>C3: the first message of a service-pack exchange\<close>

text \<open>
  C3: when the first received message carries payload bytes (its \<open>Data\<close> is not \<open>nil\<close>)
  or has an empty repository UID, \<open>ServicePack\<close> returns an invalid-argument status and
  runs no git command.
\<close>

theorem ServicePack_rejects_first_message:
  "Data req \<noteq> None \<or> RepoUid req = [] \<Longrightarrow>
     returned (ServicePack pkg s w (Inr req)) =
       Some (Status InvalidArgument
         (if Data req \<noteq> None then ''PostUploadPack(): non-empty Data''
          else ''PostUploadPack(): repository UID is missing'')) \<and>
     spawned (ServicePack pkg s w (Inr req)) = []"
  by (auto simp: ServicePack_def)

theorem ServicePack_rejects_first_message_witness:
  "Data (example_push\<lparr>Data := Some ''0032want''\<rparr>) = Some ''0032want'' \<and>
   returned (ServicePack example_pkg example_service example_world
      (Inr (example_push\<lparr>Data := Some ''0032want''\<rparr>)))
     = Some (Status InvalidArgument ''PostUploadPack(): non-empty Data'') \<and>
   spawned (ServicePack example_pkg example_service example_world
      (Inr (example_push\<lparr>Data := Some ''0032want''\<rparr>))) = [] \<and>
   Data (example_push\<lparr>RepoUid := []\<rparr>) = None \<and> RepoUid (example_push\<lparr>RepoUid := []\<rparr>) = [] \<and>
   returned (ServicePack example_pkg example_service example_world
      (Inr (example_push\<lparr>RepoUid := []\<rparr>)))
     = Some (Status InvalidArgument ''PostUploadPack(): repository UID is missing'') \<and>
   spawned (ServicePack example_pkg example_service example_world
      (Inr (example_push\<lparr>RepoUid := []\<rparr>))) = []"
proof -
  have h1: "Data (example_push\<lparr>Data := Some ''0032want''\<rparr>) \<noteq> None \<or>
      RepoUid (example_push\<lparr>Data := Some ''0032want''\<rparr>) = []" by simp
  have h2: "Data (example_push\<lparr>RepoUid := []\<rparr>) \<noteq> None \<or> RepoUid (example_push\<lparr>RepoUid := []\<rparr>) = []"
    by simp
  have d: "Data (example_push\<lparr>RepoUid := []\<rparr>) = None" by (simp add: example_push_def)
  from ServicePack_rejects_first_message [OF h1, of example_pkg example_service example_world]
    ServicePack_rejects_first_message [OF h2, of example_pkg example_service example_world]
    d
  show ?thesis by simp
qed

subsection \<open>C4: the correlation variables of a push\<close>

text \<open>
  C4 as stated: for \<open>upload-pack\<close>, or \<open>receive-pack\<close> with an empty principal,
  neither correlation variable is present in the subprocess environment. It fails when
  the inherited environment has one: the command is run with \<open>os.Environ()\<close> followed
  by the variables \<open>serviceRPC\<close> builds, so an \<open>upload-pack\<close> exchange on a host whose
  environment has the pusher variable runs git with that variable present.
\<close>

theorem ServicePack_inherited_pusher:
  "Service example_fetch = ''upload-pack'' \<and>
   map (\<lambda>c. envHas (EnvPusherID example_pkg) (Env (snd c)))
     (spawned (ServicePack example_pkg example_service inherited_world (Inr example_fetch)))
     = [True]"
proof -
  have "Data example_fetch = None" "RepoUid example_fetch \<noteq> []" "Service example_fetch = ''upload-pack''"
    by (simp_all add: example_fetch_def)
  moreover have "envHas (EnvPusherID example_pkg) (os_Environ inherited_world)"
    by (simp add: envHas_def envKey_def inherited_world_def example_pkg_def)
  ultimately show ?thesis
    by (simp add: ServicePack_valid serviceRPC_spawned serviceRPC_opts_def envHas_append)
qed

text \<open>
  C4, amended: in a service-pack exchange whose first message is accepted, the
  environment of the subprocess is the inherited one followed by the variables
  \<open>serviceRPC\<close> builds. For \<open>receive-pack\<close> with a non-empty principal, what the
  environment binds the repository-UID variable to is what the inherited environment
  binds it to followed by exactly the request's repository UID, and likewise the pusher
  variable and the request's principal: the supplied values are the last bindings. For
  any other service, or an empty principal, the exchange adds neither variable: each is
  present in the environment of the subprocess exactly when it is in the inherited one.
  The names of the two variables are declared outside the file; they are taken to be
  proper names (\<open>envNamesOk\<close>).
\<close>

theorem serviceRPC_correlation:
  assumes "envNamesOk pkg" and "Data req = None" and "RepoUid req \<noteq> []"
  shows "map (\<lambda>c. Env (snd c)) (spawned (ServicePack pkg s w (Inr req)))
           = [os_Environ w @ serviceRPC_environ pkg req] \<and>
         (Service req = ''receive-pack'' \<and> PrincipalId req \<noteq> [] \<longrightarrow>
           map (\<lambda>c. envValues (EnvRepoUID pkg) (Env (snd c))) (spawned (ServicePack pkg s w (Inr req)))
             = [envValues (EnvRepoUID pkg) (os_Environ w) @ [RepoUid req]] \<and>
           map (\<lambda>c. envValues (EnvPusherID pkg) (Env (snd c))) (spawned (ServicePack pkg s w (Inr req)))
             = [envValues (EnvPusherID pkg) (os_Environ w) @ [PrincipalId req]]) \<and>
         (\<not> (Service req = ''receive-pack'' \<and> PrincipalId req \<noteq> []) \<longrightarrow>
           map (\<lambda>c. envHas (EnvRepoUID pkg) (Env (snd c))) (spawned (ServicePack pkg s w (Inr req)))
             = [envHas (EnvRepoUID pkg) (os_Environ w)] \<and>
           map (\<lambda>c. envHas (EnvPusherID pkg) (Env (snd c))) (spawned (ServicePack pkg s w (Inr req)))
             = [envHas (EnvPusherID pkg) (os_Environ w)])"
proof -
  have sp: "spawned (ServicePack pkg s w (Inr req))
      = [(serviceRPC_args req (getFullPathForRepo pkg s (RepoUid req)),
          serviceRPC_opts pkg w req (getFullPathForRepo pkg s (RepoUid req)))]"
    using assms(2,3) by (simp add: ServicePack_valid serviceRPC_spawned)
  have env: "Env (serviceRPC_opts pkg w req (getFullPathForRepo pkg s (RepoUid req)))
      = os_Environ w @ serviceRPC_environ pkg req"
    by (simp add: serviceRPC_opts_def)
  show ?thesis
  proof (intro conjI impI)
    show "map (\<lambda>c. Env (snd c)) (spawned (ServicePack pkg s w (Inr req)))
           = [os_Environ w @ serviceRPC_environ pkg req]"
      by (simp add: sp env)
  next
    assume a: "Service req = ''receive-pack'' \<and> PrincipalId req \<noteq> []"
    note c = serviceRPC_environ_correlated [OF assms(1) a]
    show "map (\<lambda>c. envValues (EnvRepoUID pkg) (Env (snd c))) (spawned (ServicePack pkg s w (Inr req)))
             = [envValues (EnvRepoUID pkg) (os_Environ w) @ [RepoUid req]]"
      using c by (simp add: sp env envValues_append)
    show "map (\<lambda>c. envValues (EnvPusherID pkg) (Env (snd c))) (spawned (ServicePack pkg s w (Inr req)))
             = [envValues (EnvPusherID pkg) (os_Environ w) @ [PrincipalId req]]"
      using c by (simp add: sp env envValues_append)
  next
    assume a: "\<not> (Service req = ''receive-pack'' \<and> PrincipalId req \<noteq> [])"
    note u = serviceRPC_environ_uncorrelated [OF assms(1) a]
    show "map (\<lambda>c. envHas (EnvRepoUID pkg) (Env (snd c))) (spawned (ServicePack pkg s w (Inr req)))
             = [envHas (EnvRepoUID pkg) (os_Environ w)]"
      using u by (simp add: sp env envHas_append)
    show "map (\<lambda>c. envHas (EnvPusherID pkg) (Env (snd c))) (spawned (ServicePack pkg s w (Inr req)))
             = [envHas (EnvPusherID pkg) (os_Environ w)]"
      using u by (simp add: sp env envHas_append)
  qed
qed

theorem serviceRPC_correlation_witness:
  "envNamesOk example_pkg \<and> Data example_push = None \<and> RepoUid example_push \<noteq> [] \<and>
   Data example_fetch = None \<and> RepoUid example_fetch \<noteq> [] \<and>
   map (\<lambda>c. Env (snd c))
     (spawned (ServicePack example_pkg example_service inherited_world (Inr example_push)))
     = [[''PATH=/usr/bin'', ''GITNESS_PUSHER_ID=7'', ''GITNESS_REPO_UID=r1'', ''GITNESS_PUSHER_ID=p1'',
         ''SSH_ORIGINAL_COMMAND=receive-pack'', ''GIT_PROTOCOL=version=2'']] \<and>
   map (\<lambda>c. envValues ''GITNESS_REPO_UID'' (Env (snd c)))
     (spawned (ServicePack example_pkg example_service inherited_world (Inr example_push)))
     = [[''r1'']] \<and>
   map (\<lambda>c. envValues ''GITNESS_PUSHER_ID'' (Env (snd c)))
     (spawned (ServicePack example_pkg example_service inherited_world (Inr example_push)))
     = [[''7'', ''p1'']] \<and>
   map (\<lambda>c. envHas ''GITNESS_REPO_UID'' (Env (snd c)))
     (spawned (ServicePack example_pkg example_service example_world (Inr example_fetch)))
     = [False] \<and>
   map (\<lambda>c. envHas ''GITNESS_PUSHER_ID'' (Env (snd c)))
     (spawned (ServicePack example_pkg example_service example_world (Inr example_fetch)))
     = [False]"
proof -
  have n: "envNamesOk example_pkg" by (simp add: envNamesOk_def example_pkg_def)
  have p: "Data example_push = None" "RepoUid example_push \<noteq> []"
    "Service example_push = ''receive-pack'' \<and> PrincipalId example_push \<noteq> []"
    "RepoUid example_push = ''r1''" "PrincipalId example_push = ''p1''"
    by (simp_all add: example_push_def)
  have f: "Data example_fetch = None" "RepoUid example_fetch \<noteq> []"
    "\<not> (Service example_fetch = ''receive-pack'' \<and> PrincipalId example_fetch \<noteq> [])"
    by (simp_all add: example_fetch_def)
  have k: "EnvRepoUID example_pkg = ''GITNESS_REPO_UID''" "EnvPusherID example_pkg = ''GITNESS_PUSHER_ID''"
    by (simp_all add: example_pkg_def)
  have e: "os_Environ inherited_world @ serviceRPC_environ example_pkg example_push
     = [''PATH=/usr/bin'', ''GITNESS_PUSHER_ID=7'', ''GITNESS_REPO_UID=r1'', ''GITNESS_PUSHER_ID=p1'',
         ''SSH_ORIGINAL_COMMAND=receive-pack'', ''GIT_PROTOCOL=version=2'']"
    by code_simp
  have h: "envValues ''GITNESS_REPO_UID'' (os_Environ inherited_world) = []"
    "envValues ''GITNESS_PUSHER_ID'' (os_Environ inherited_world) = [''7'']"
    "envHas ''GITNESS_REPO_UID'' (os_Environ example_world) = False"
    "envHas ''GITNESS_PUSHER_ID'' (os_Environ example_world) = False"
    by code_simp+
  from serviceRPC_correlation [OF n p(1,2), of example_service inherited_world]
    serviceRPC_correlation [OF n f(1,2), of example_service example_world]
    n p f k e h
  show ?thesis by simp
qed

subsection \<open>C5: the service marker\<close>

text \<open>
  C5 as stated, for both operations: the subprocess environment always has the service
  marker. It fails for \<open>InfoRefs\<close>: with an inherited environment that has no
  \<open>SSH_ORIGINAL_COMMAND\<close>, the one command \<open>InfoRefs\<close> runs has none either.
\<close>

theorem InfoRefs_no_marker:
  "map (\<lambda>c. envHas ''SSH_ORIGINAL_COMMAND'' (Env (snd c)))
     (spawned (InfoRefs example_pkg example_service example_world example_advertise)) = [False]"
  by (simp add: InfoRefs_spawned InfoRefs_opts_def InfoRefs_environ_def example_world_def
      example_advertise_def envHas_def envKey_def)

text \<open>
  C5, amended: in every service-pack exchange whose first message is accepted, the
  environment of the subprocess is the inherited one followed by the variables of
  \<open>serviceRPC\<close>, and these contain \<open>SSH_ORIGINAL_COMMAND\<close> bound to the request's
  service name. The ref advertisement adds no service marker: its subprocess has one
  exactly when the inherited environment has.
\<close>

theorem service_marker:
  "(Data req = None \<and> RepoUid req \<noteq> [] \<longrightarrow>
      map (\<lambda>c. Env (snd c)) (spawned (ServicePack pkg s w (Inr req)))
        = [os_Environ w @ serviceRPC_environ pkg req] \<and>
      ''SSH_ORIGINAL_COMMAND='' @ Service req \<in> set (serviceRPC_environ pkg req)) \<and>
   map (\<lambda>c. envHas ''SSH_ORIGINAL_COMMAND'' (Env (snd c))) (spawned (InfoRefs pkg s w r))
     = [envHas ''SSH_ORIGINAL_COMMAND'' (os_Environ w)]"
proof (intro conjI impI)
  assume "Data req = None \<and> RepoUid req \<noteq> []"
  then show "map (\<lambda>c. Env (snd c)) (spawned (ServicePack pkg s w (Inr req)))
        = [os_Environ w @ serviceRPC_environ pkg req]"
    by (simp add: ServicePack_valid serviceRPC_spawned serviceRPC_opts_def)
next
  show "''SSH_ORIGINAL_COMMAND='' @ Service req \<in> set (serviceRPC_environ pkg req)"
    by (simp add: serviceRPC_environ_def Let_def)
next
  have "envHas ''SSH_ORIGINAL_COMMAND'' (InfoRefs_environ w r)
      = envHas ''SSH_ORIGINAL_COMMAND'' (os_Environ w)"
    by (simp add: InfoRefs_environ_def Let_def envHas_append)
      (simp add: envHas_def envKey_protocol [simplified])
  then show "map (\<lambda>c. envHas ''SSH_ORIGINAL_COMMAND'' (Env (snd c))) (spawned (InfoRefs pkg s w r))
     = [envHas ''SSH_ORIGINAL_COMMAND'' (os_Environ w)]"
    by (simp add: InfoRefs_spawned InfoRefs_opts_def)
qed

theorem service_marker_witness:
  "Data example_push = None \<and> RepoUid example_push \<noteq> [] \<and>
   map (\<lambda>c. Env (snd c)) (spawned (ServicePack example_pkg example_service example_world (Inr example_push)))
     = [[''PATH=/usr/bin'', ''GITNESS_REPO_UID=r1'', ''GITNESS_PUSHER_ID=p1'',
         ''SSH_ORIGINAL_COMMAND=receive-pack'', ''GIT_PROTOCOL=version=2'']] \<and>
   ''SSH_ORIGINAL_COMMAND=receive-pack'' \<in> set (serviceRPC_environ example_pkg example_push)"
proof -
  have p: "Data example_push = None \<and> RepoUid example_push \<noteq> []"
    "Service example_push = ''receive-pack''"
    by (simp_all add: example_push_def)
  have e: "os_Environ example_world @ serviceRPC_environ example_pkg example_push
     = [''PATH=/usr/bin'', ''GITNESS_REPO_UID=r1'', ''GITNESS_PUSHER_ID=p1'',
         ''SSH_ORIGINAL_COMMAND=receive-pack'', ''GIT_PROTOCOL=version=2'']"
    by code_simp
  from service_marker [of example_push example_pkg example_service example_world example_advertise]
    p e
  show ?thesis by simp
qed

subsection \<open>C6: what a successful ref advertisement sends\<close>

text \<open>
  C6: when \<open>InfoRefs\<close> returns \<open>nil\<close>, the bytes it sent, chunk after chunk, are the
  packet line of \<open># service=git-<service>\<close> and a newline, then \<open>0000\<close>, then the
  standard output of the git command run with \<open>--stateless-rpc --advertise-refs .\<close> in
  the directory of the repository.
\<close>

theorem InfoRefs_success_bytes:
  "returned (InfoRefs pkg s w r) = None \<Longrightarrow>
     concat (Send_calls (InfoRefs pkg s w r)) =
       packetWrite (''# service=git-'' @ ir_Service r @ ''\<newline>'') @ ''0000'' @
       run_stdout (git_Run w [ir_Service r, ''--stateless-rpc'', ''--advertise-refs'', ''.'']
         \<lparr>Env = InfoRefs_environ w r, Dir = getFullPathForRepo pkg s (ir_RepoUid r),
          UseContextTimeout = False\<rparr>)"
  by (auto simp: InfoRefs_def InfoRefs_args_def InfoRefs_opts_def Let_def Writer_Write_def
      io_Copy_def split: option.splits prod.splits if_splits)

theorem InfoRefs_success_bytes_witness:
  "returned (InfoRefs example_pkg example_service example_world example_advertise) = None \<and>
   concat (Send_calls (InfoRefs example_pkg example_service example_world example_advertise))
     = ''001e# service=git-upload-pack\<newline>00000000''"
proof -
  have h: "returned (InfoRefs example_pkg example_service example_world example_advertise) = None"
    by code_simp
  have v: "packetWrite (''# service=git-'' @ ir_Service example_advertise @ ''\<newline>'') @ ''0000'' @
       run_stdout (git_Run example_world
         [ir_Service example_advertise, ''--stateless-rpc'', ''--advertise-refs'', ''.'']
         \<lparr>Env = InfoRefs_environ example_world example_advertise,
          Dir = getFullPathForRepo example_pkg example_service (ir_RepoUid example_advertise),
          UseContextTimeout = False\<rparr>)
     = ''001e# service=git-upload-pack\<newline>00000000''"
    by code_simp
  from InfoRefs_success_bytes [OF h] h v show ?thesis by simp
qed

subsection \<open>C7: a failed git command in the ref advertisement\<close>

text \<open>
  C7: when the git command of \<open>InfoRefs\<close> returns an error (it did not start, or it
  ended with one), \<open>InfoRefs\<close> returns an internal status that carries the text of that
  error, and it has sent nothing.
\<close>

theorem InfoRefs_failure_sends_nothing:
  "run_err (git_Run w (InfoRefs_args r) (InfoRefs_opts pkg s w r)) = Some e \<Longrightarrow>
     returned (InfoRefs pkg s w r) = Some (Status Internal (''InfoRefsUploadPack: cmd: '' @ e)) \<and>
     Send_calls (InfoRefs pkg s w r) = []"
  by (simp add: InfoRefs_def Let_def)

theorem InfoRefs_failure_sends_nothing_witness:
  "run_err (git_Run (failing_world ''exit status 128'') (InfoRefs_args example_advertise)
      (InfoRefs_opts example_pkg example_service (failing_world ''exit status 128'') example_advertise))
     = Some ''exit status 128'' \<and>
   returned (InfoRefs example_pkg example_service (failing_world ''exit status 128'') example_advertise)
     = Some (Status Internal ''InfoRefsUploadPack: cmd: exit status 128'') \<and>
   Send_calls (InfoRefs example_pkg example_service (failing_world ''exit status 128'') example_advertise) = []"
proof -
  have h: "run_err (git_Run (failing_world ''exit status 128'') (InfoRefs_args example_advertise)
      (InfoRefs_opts example_pkg example_service (failing_world ''exit status 128'') example_advertise))
     = Some ''exit status 128''"
    by (simp add: failing_world_def)
  from InfoRefs_failure_sends_nothing [OF h] h show ?thesis by simp
qed

subsection \<open>C8: errors of the subprocess in a service-pack exchange\<close>

text \<open>
  C8 as stated: only a termination caused by the kill that cancellation triggers is kept
  out of the error log; every other error of the subprocess is logged and returned. It
  fails for a subprocess that is killed while the caller has not cancelled (the context
  of the call is live): \<open>Run\<close> reports the same error \<open>signal: killed\<close>, which
  \<open>serviceRPC\<close> returns without logging anything.
\<close>

theorem serviceRPC_kill_without_cancel:
  "ctx_Err (failing_world ''signal: killed'') = None \<and>
   run_err (git_Run (failing_world ''signal: killed'')
       (serviceRPC_args example_push ''/data/repos/r1.git'')
       (serviceRPC_opts example_pkg (failing_world ''signal: killed'') example_push ''/data/repos/r1.git''))
     = Some ''signal: killed'' \<and>
   returned (serviceRPC example_pkg (failing_world ''signal: killed'') example_push ''/data/repos/r1.git'')
     = Some (Err ''signal: killed'') \<and>
   logged (serviceRPC example_pkg (failing_world ''signal: killed'') example_push ''/data/repos/r1.git'')
     = []"
  by (simp add: serviceRPC_def Let_def failing_world_def)

text \<open>
  C8, amended: \<open>serviceRPC\<close> returns the error of the run unchanged, whatever it is, and
  \<open>nil\<close> when there is none. An error whose text is \<open>signal: killed\<close>, which is how
  the code recognises the kill that cancellation triggers, is not logged. Every error
  with another text is logged, in one entry that names the service, the directory, the
  error and the standard error of the subprocess. Without an error nothing is logged.
\<close>

theorem serviceRPC_error_policy:
  "returned (serviceRPC pkg w req dir) =
     map_option Err (run_err (git_Run w (serviceRPC_args req dir) (serviceRPC_opts pkg w req dir))) \<and>
   (run_err (git_Run w (serviceRPC_args req dir) (serviceRPC_opts pkg w req dir))
        = Some ''signal: killed'' \<longrightarrow>
      logged (serviceRPC pkg w req dir) = []) \<and>
   (run_err (git_Run w (serviceRPC_args req dir) (serviceRPC_opts pkg w req dir)) = Some e \<and>
    e \<noteq> ''signal: killed'' \<longrightarrow>
      logged (serviceRPC pkg w req dir) =
        [''Fail to serve RPC('' @ Service req @ '') in '' @ dir @ '': '' @ e @ '' - '' @
         run_stderr (git_Run w (serviceRPC_args req dir) (serviceRPC_opts pkg w req dir))]) \<and>
   (run_err (git_Run w (serviceRPC_args req dir) (serviceRPC_opts pkg w req dir)) = None \<longrightarrow>
      logged (serviceRPC pkg w req dir) = [])"
  by (simp add: serviceRPC_def Let_def)

theorem serviceRPC_error_policy_witness:
  "ctx_Err cancelled_world = Some ''context canceled'' \<and>
   returned (serviceRPC example_pkg cancelled_world example_push ''/data/repos/r1.git'')
     = Some (Err ''signal: killed'') \<and>
   logged (serviceRPC example_pkg cancelled_world example_push ''/data/repos/r1.git'') = [] \<and>
   returned (serviceRPC example_pkg (failing_world ''exit status 128'') example_push ''/data/repos/r1.git'')
     = Some (Err ''exit status 128'') \<and>
   logged (serviceRPC example_pkg (failing_world ''exit status 128'') example_push ''/data/repos/r1.git'')
     = [''Fail to serve RPC(receive-pack) in /data/repos/r1.git: exit status 128 - fatal''] \<and>
   returned (serviceRPC example_pkg example_world example_push ''/data/repos/r1.git'') = None \<and>
   logged (serviceRPC example_pkg example_world example_push ''/data/repos/r1.git'') = []"
proof -
  have k: "run_err (git_Run cancelled_world
        (serviceRPC_args example_push ''/data/repos/r1.git'')
        (serviceRPC_opts example_pkg cancelled_world example_push ''/data/repos/r1.git''))
      = Some ''signal: killed''"
    "ctx_Err cancelled_world = Some ''context canceled''"
    by (simp_all add: cancelled_world_def)
  have x: "run_err (git_Run (failing_world ''exit status 128'')
        (serviceRPC_args example_push ''/data/repos/r1.git'')
        (serviceRPC_opts example_pkg (failing_world ''exit status 128'') example_push ''/data/repos/r1.git''))
      = Some ''exit status 128'' \<and> ''exit status 128'' \<noteq> ''signal: killed''"
    "run_stderr (git_Run (failing_world ''exit status 128'')
        (serviceRPC_args example_push ''/data/repos/r1.git'')
        (serviceRPC_opts example_pkg (failing_world ''exit status 128'') example_push ''/data/repos/r1.git''))
      = ''fatal''"
    "Service example_push = ''receive-pack''"
    by (simp_all add: failing_world_def example_push_def)
  have n: "run_err (git_Run example_world
        (serviceRPC_args example_push ''/data/repos/r1.git'')
        (serviceRPC_opts example_pkg example_world example_push ''/data/repos/r1.git''))
      = None"
    by (simp add: example_world_def)
  from serviceRPC_error_policy [of example_pkg cancelled_world example_push "''/data/repos/r1.git''" "''x''"]
    serviceRPC_error_policy [of example_pkg "failing_world ''exit status 128''" example_push
      "''/data/repos/r1.git''" "''exit status 128''"]
    serviceRPC_error_policy [of example_pkg example_world example_push "''/data/repos/r1.git''" "''x''"]
    k x n
  show ?thesis by simp
qed

subsection \<open>C9: a payload that is present and empty\<close>

text \<open>
  C9: a first message whose \<open>Data\<close> is present and empty is rejected with the
  invalid-argument status of a payload and no git command is run; the outcome is the same
  for any content of a present \<open>Data\<close>, so it is the presence that is tested.
\<close>

theorem ServicePack_rejects_present_Data:
  "returned (ServicePack pkg s w (Inr (req\<lparr>Data := Some []\<rparr>))) =
       Some (Status InvalidArgument ''PostUploadPack(): non-empty Data'') \<and>
   spawned (ServicePack pkg s w (Inr (req\<lparr>Data := Some []\<rparr>))) = [] \<and>
   ServicePack pkg s w (Inr (req\<lparr>Data := Some bs\<rparr>)) =
     ServicePack pkg s w (Inr (req\<lparr>Data := Some []\<rparr>))"
  by (simp add: ServicePack_def)

theorem ServicePack_rejects_present_Data_witness:
  "returned (ServicePack example_pkg example_service example_world
      (Inr (example_push\<lparr>Data := Some []\<rparr>)))
     = Some (Status InvalidArgument ''PostUploadPack(): non-empty Data'') \<and>
   spawned (ServicePack example_pkg example_service example_world
      (Inr (example_push\<lparr>Data := Some []\<rparr>))) = [] \<and>
   spawned (ServicePack example_pkg example_service example_world
      (Inr (example_push\<lparr>Data := Some ''0032want''\<rparr>))) = []"
  using ServicePack_rejects_present_Data
    [of example_pkg example_service example_world example_push "''0032want''"]
  by simp

subsection \<open>C10: the path of a repository\<close>

text \<open>
  C10: for every uid, \<open>getFullPathForRepo\<close> returns the join of the repositories root with
  \<open>uid.suffix\<close>, with no check of the uid and no error. So some uid resolves outside the
  root: when the root is an absolute directory \<open>/c1/.../cn\<close> of ordinary elements (and
  the suffix has no separator), the uid \<open>../cnx\<close> resolves to \<open>/c1/.../cnx.suffix\<close>,
  beside the root.
\<close>

theorem getFullPathForRepo_join:
  "getFullPathForRepo pkg s uid = filepath_Join [reposRoot s, uid @ ''.'' @ gitRepoSuffix pkg] \<and>
   (reposRoot s = CHR ''/'' # strings_Join cs ''/'' \<and> cs \<noteq> [] \<and> list_all plainElem cs \<and>
    CHR ''/'' \<notin> set (gitRepoSuffix pkg) \<longrightarrow>
      \<not> pathWithin (reposRoot s) (getFullPathForRepo pkg s (''../'' @ last cs @ ''x'')))"
proof (intro conjI impI)
  show "getFullPathForRepo pkg s uid = filepath_Join [reposRoot s, uid @ ''.'' @ gitRepoSuffix pkg]"
    by (simp add: getFullPathForRepo_def)
next
  assume a: "reposRoot s = CHR ''/'' # strings_Join cs ''/'' \<and> cs \<noteq> [] \<and> list_all plainElem cs \<and>
    CHR ''/'' \<notin> set (gitRepoSuffix pkg)"
  then have r: "reposRoot s = CHR ''/'' # strings_Join cs ''/''" and n: "cs \<noteq> []"
    and e: "\<forall>c\<in>set cs. plainElem c" and x: "CHR ''/'' \<notin> set (gitRepoSuffix pkg)"
    by (simp_all add: list_all_iff)
  from getFullPathForRepo_escape [OF r n e x]
  show "\<not> pathWithin (reposRoot s) (getFullPathForRepo pkg s (''../'' @ last cs @ ''x''))"
    by (rule conjunct2)
qed

theorem getFullPathForRepo_join_witness:
  "reposRoot example_service = CHR ''/'' # strings_Join [''data'', ''repos''] ''/'' \<and>
   list_all plainElem [''data'', ''repos''] \<and>
   CHR ''/'' \<notin> set (gitRepoSuffix example_pkg) \<and>
   getFullPathForRepo example_pkg example_service ''r1'' = ''/data/repos/r1.git'' \<and>
   pathWithin (reposRoot example_service) (getFullPathForRepo example_pkg example_service ''r1'') \<and>
   getFullPathForRepo example_pkg example_service ''../reposx'' = ''/data/reposx.git'' \<and>
   \<not> pathWithin (reposRoot example_service)
       (getFullPathForRepo example_pkg example_service ''../reposx'')"
proof -
  have h: "reposRoot example_service = CHR ''/'' # strings_Join [''data'', ''repos''] ''/'' \<and>
      [''data'', ''repos''] \<noteq> [] \<and> list_all plainElem [''data'', ''repos''] \<and>
      CHR ''/'' \<notin> set (gitRepoSuffix example_pkg)"
    by (simp add: example_service_def example_pkg_def plainElem_def)
  have j: "filepath_Join [reposRoot example_service, ''r1'' @ ''.'' @ gitRepoSuffix example_pkg]
     = ''/data/repos/r1.git''"
    by code_simp
  have k: "filepath_Join [reposRoot example_service, ''../reposx'' @ ''.'' @ gitRepoSuffix example_pkg]
     = ''/data/reposx.git''"
    by code_simp
  have i: "pathWithin (reposRoot example_service) ''/data/repos/r1.git''"
    by code_simp
  from getFullPathForRepo_join [of example_pkg example_service "''r1''" "[''data'', ''repos'']"]
    getFullPathForRepo_join [of example_pkg example_service "''../reposx''" "[''data'', ''repos'']"]
    h j k i
  show ?thesis by simp
qed

end
